theory Spec2Isabelle
  imports Main "HOL-Library.Multiset" "HOL-Library.List_Lexorder" "HOL-Library.Char_ord"
begin

section \<open>Data model of the Americano session (src/src/App.tsx)\<close>

text \<open>
  The TypeScript types \<open>Player\<close>, \<open>Team\<close>, \<open>Match\<close>, \<open>Session\<close> and
  \<open>StandingsRow\<close> become records. Field names carry the name of their type as a prefix,
  because \<open>id\<close>, \<open>name\<close> and \<open>players\<close> occur in several of the source types.
  Participant ids, rounds and courts are natural numbers. The type \<open>number\<close> of a score
  is modelled by the integers, which is what the score inputs are for; the value
  \<open>null\<close> of \<open>scoreA: number | null\<close> is \<open>None\<close>, and \<open>NaN\<close> is dealt with where it
  can arise, in the handler of the score input. The source computes on IEEE doubles: its
  comparisons, minima and maxima are those of the integers on integer scores, and its
  additions and subtractions are exact on integer scores within the scoring scale. A
  score with a fraction, which the score input also lets through, is outside the model,
  and so is a property of the sums of such scores.
\<close>

record player =
  player_id :: nat
  player_name :: string

record team =
  team_id :: string
  team_players :: "nat \<times> nat"

record match =
  match_id :: string
  match_round :: nat
  match_court :: nat
  match_teamA :: team
  match_teamB :: team
  match_scoreA :: "int option"

record session =
  session_name :: string
  session_players :: "player list"
  session_matches :: "match list"
  session_courtSwapByRound :: "nat \<rightharpoonup> bool"

record standingsRow =
  row_player :: player
  row_points :: int
  row_matchesPlayed :: nat

text \<open>The state type \<open>24 | 32\<close> of \<open>totalPoints\<close> and its numeric value.\<close>

datatype totalPoints = TP24 | TP32

fun pointsValue :: "totalPoints \<Rightarrow> int" where
  "pointsValue TP24 = 24"
| "pointsValue TP32 = 32"

section \<open>The schedule generator\<close>

text \<open>Decimal rendering of a number inside a template literal.\<close>

fun String_of_nat :: "nat \<Rightarrow> string" where
  "String_of_nat n =
     (if n < 10 then [''0123456789'' ! n]
      else String_of_nat (n div 10) @ [''0123456789'' ! (n mod 10)])"

declare String_of_nat.simps [simp del]

definition pairingsByRound :: "(nat \<times> nat) list list" where
  "pairingsByRound =
     [[(0, 7), (1, 6), (2, 5), (3, 4)],
      [(0, 6), (7, 5), (1, 4), (2, 3)],
      [(0, 5), (6, 4), (7, 3), (1, 2)],
      [(0, 4), (5, 3), (6, 2), (7, 1)],
      [(0, 3), (4, 2), (5, 1), (6, 7)],
      [(0, 2), (3, 1), (4, 7), (5, 6)],
      [(0, 1), (2, 7), (3, 6), (4, 5)]]"

text \<open>
  The constant \<open>teams\<close> of the \<open>forEach\<close> callback: one team per pair of the round, in
  the order of the table, with id \<open>r<round>t<index>\<close>.
\<close>

definition teamsOfRound :: "nat \<Rightarrow> (nat \<times> nat) list \<Rightarrow> team list" where
  "teamsOfRound roundIdx roundPairings =
     map (\<lambda>(teamIdx, pair).
            \<lparr>team_id = ''r'' @ String_of_nat (roundIdx + 1) @ ''t'' @ String_of_nat (teamIdx + 1),
             team_players = (fst pair, snd pair)\<rparr>)
         (enumerate 0 roundPairings)"

text \<open>The two \<open>matches.push\<close> calls of one round.\<close>

definition matchesOfRound :: "nat \<Rightarrow> (nat \<times> nat) list \<Rightarrow> match list" where
  "matchesOfRound roundIdx roundPairings =
     (let teams = teamsOfRound roundIdx roundPairings in
      [\<lparr>match_id = ''r'' @ String_of_nat (roundIdx + 1) @ ''c1'',
        match_round = roundIdx + 1,
        match_court = 1,
        match_teamA = teams ! 0,
        match_teamB = teams ! 1,
        match_scoreA = None\<rparr>,
       \<lparr>match_id = ''r'' @ String_of_nat (roundIdx + 1) @ ''c2'',
        match_round = roundIdx + 1,
        match_court = 2,
        match_teamA = teams ! 2,
        match_teamB = teams ! 3,
        match_scoreA = None\<rparr>])"

definition generateMatches :: "match list" where
  "generateMatches =
     concat (map (\<lambda>(roundIdx, roundPairings). matchesOfRound roundIdx roundPairings)
                 (enumerate 0 pairingsByRound))"

section \<open>Built-in functions used by the application\<close>

text \<open>
  \<open>Array.prototype.sort(compareFn)\<close> is a stable sort: for a comparator that orders the
  elements consistently its result is the stable insertion sort below. An element goes
  before the first element it does not compare greater than, so elements that compare
  equal keep their original order.
\<close>

fun insertBy :: "('a \<Rightarrow> 'a \<Rightarrow> int) \<Rightarrow> 'a \<Rightarrow> 'a list \<Rightarrow> 'a list" where
  "insertBy compareFn x [] = [x]"
| "insertBy compareFn x (y # ys) =
     (if compareFn x y \<le> 0 then x # y # ys else y # insertBy compareFn x ys)"

definition sortBy :: "('a \<Rightarrow> 'a \<Rightarrow> int) \<Rightarrow> 'a list \<Rightarrow> 'a list" where
  "sortBy compareFn xs = foldr (insertBy compareFn) xs []"

text \<open>
  \<open>String.prototype.trim\<close> and \<open>String.prototype.toLowerCase\<close> are functions of the
  host: which characters are white space and which letters have a lower-case form is laid
  down by the Unicode tables of the host, not by the application. The function that calls
  them, \<open>createSession\<close>, takes them as the parameters \<open>trim\<close> and \<open>toLowerCase\<close>, and
  what is proved of it holds whatever the two functions are. A string is the list of its
  characters in an encoding that tells any two strings apart; the empty string is the
  empty list.

  For the example states there are two instances, which compute what the host functions
  compute on strings of ASCII characters: the white space of ASCII is tab, line feed,
  vertical tab, form feed, carriage return and space, and its letters with a lower-case
  form are \<open>A\<close> to \<open>Z\<close>. The examples contain ASCII characters only.
\<close>

definition asciiWhiteSpace :: "char \<Rightarrow> bool" where
  "asciiWhiteSpace c = (of_char c \<in> {9, 10, 11, 12, 13, 32 :: nat})"

definition asciiTrim :: "string \<Rightarrow> string" where
  "asciiTrim s = rev (dropWhile asciiWhiteSpace (rev (dropWhile asciiWhiteSpace s)))"

definition asciiLowerChar :: "char \<Rightarrow> char" where
  "asciiLowerChar c =
     (let n = (of_char c :: nat) in if 65 \<le> n \<and> n \<le> 90 then char_of (n + 32) else c)"

definition asciiToLowerCase :: "string \<Rightarrow> string" where
  "asciiToLowerCase s = map asciiLowerChar s"


text \<open>One such comparison: the lexicographic order of the character codes.\<close>

definition lexicographicCompare :: "string \<Rightarrow> string \<Rightarrow> int" where
  "lexicographicCompare a b = (if a < b then - 1 else if a = b then 0 else 1)"

section \<open>The application state and its commands\<close>

text \<open>
  The state of the component \<open>App\<close>: its six \<open>useState\<close> cells and the two entries of
  \<open>localStorage\<close> it writes, each represented by the value whose serialisation is stored
  under \<open>STORAGE_KEY\<close> and \<open>TOTAL_POINTS_KEY\<close> (\<open>None\<close>: no entry).
\<close>

datatype tab = Matches | Standings

record app =
  totalPoints :: totalPoints
  session :: "session option"
  sessionNameInput :: string
  playerInputs :: "string list"
  activeTab :: tab
  message :: string
  storedSession :: "session option"
  storedTotalPoints :: "totalPoints option"

definition TOTAL_ROUNDS :: nat where
  "TOTAL_ROUNDS = 7"

definition initialPlayerInputs :: "string list" where
  "initialPlayerInputs = replicate 8 []"

definition persistSession :: "session \<Rightarrow> app \<Rightarrow> app" where
  "persistSession next st = st\<lparr>session := Some next, storedSession := Some next\<rparr>"

definition updateTotalPoints :: "totalPoints \<Rightarrow> app \<Rightarrow> app" where
  "updateTotalPoints nextTotalPoints st =
     (let st1 = st\<lparr>totalPoints := nextTotalPoints, storedTotalPoints := Some nextTotalPoints\<rparr> in
      case session st of
        None \<Rightarrow> st1
      | Some s \<Rightarrow>
          persistSession
            (s\<lparr>session_matches :=
                 map (\<lambda>m. case match_scoreA m of
                             None \<Rightarrow> m
                           | Some a \<Rightarrow>
                               m\<lparr>match_scoreA := Some (max 0 (min (pointsValue nextTotalPoints) a))\<rparr>)
                     (session_matches s)\<rparr>)
            st1)"

text \<open>The \<open>totals\<close> map of \<open>standings\<close>, from participant id to a mutable row.\<close>

record tally =
  tally_points :: int
  tally_matchesPlayed :: nat

type_synonym totals = "nat \<rightharpoonup> tally"

definition initTotals :: "player list \<Rightarrow> totals" where
  "initTotals ps =
     fold (\<lambda>p t. t(player_id p \<mapsto> \<lparr>tally_points = 0, tally_matchesPlayed = 0\<rparr>)) ps Map.empty"

text \<open>The body of the two inner \<open>forEach\<close> callbacks: an id without a row is skipped.\<close>

definition credit :: "int \<Rightarrow> nat \<Rightarrow> totals \<Rightarrow> totals" where
  "credit score playerId t =
     (case t playerId of
        None \<Rightarrow> t
      | Some row \<Rightarrow>
          t(playerId \<mapsto> row\<lparr>tally_points := tally_points row + score,
                              tally_matchesPlayed := tally_matchesPlayed row + 1\<rparr>))"

text \<open>
  One step of the outer \<open>forEach\<close>. The source computes \<open>scoreB\<close> and the new points in
  doubles; for integer scores within the scoring scale these are the integer results.
\<close>

definition tallyMatch :: "int \<Rightarrow> match \<Rightarrow> totals \<Rightarrow> totals" where
  "tallyMatch total_points m t =
     (case match_scoreA m of
        None \<Rightarrow> t
      | Some scoreA \<Rightarrow>
          (let scoreB = total_points - scoreA;
               t1 = fold (credit scoreA)
                      [fst (team_players (match_teamA m)), snd (team_players (match_teamA m))] t
           in fold (credit scoreB)
                [fst (team_players (match_teamB m)), snd (team_players (match_teamB m))] t1))"

definition standingsCompare ::
    "(string \<Rightarrow> string \<Rightarrow> int) \<Rightarrow> standingsRow \<Rightarrow> standingsRow \<Rightarrow> int" where
  "standingsCompare localeCompare a b =
     (if row_points b - row_points a \<noteq> 0 then row_points b - row_points a
      else localeCompare (player_name (row_player a)) (player_name (row_player b)))"

definition standings :: "(string \<Rightarrow> string \<Rightarrow> int) \<Rightarrow> app \<Rightarrow> standingsRow list" where
  "standings localeCompare st =
     (case session st of
        None \<Rightarrow> []
      | Some s \<Rightarrow>
          (let t = fold (tallyMatch (pointsValue (totalPoints st))) (session_matches s)
                     (initTotals (session_players s))
           in sortBy (standingsCompare localeCompare)
                (map (\<lambda>p. \<lparr>row_player = p,
                            row_points = tally_points (the (t (player_id p))),
                            row_matchesPlayed = tally_matchesPlayed (the (t (player_id p)))\<rparr>)
                     (session_players s))))"

text \<open>
  \<open>!!session.courtSwapByRound[round]\<close>: an absent entry reads as \<open>undefined\<close>, which is
  falsy.
\<close>

definition isSwapped :: "session \<Rightarrow> nat \<Rightarrow> bool" where
  "isSwapped s round = (case session_courtSwapByRound s round of None \<Rightarrow> False | Some b \<Rightarrow> b)"

text \<open>Reading an array at an index: beyond the end the result is \<open>undefined\<close>, here \<open>None\<close>.\<close>

definition at :: "'a list \<Rightarrow> nat \<Rightarrow> 'a option" where
  "at xs i = (if i < length xs then Some (xs ! i) else None)"

definition groupedMatches :: "app \<Rightarrow> match option list list" where
  "groupedMatches st =
     (case session st of
        None \<Rightarrow> []
      | Some s \<Rightarrow>
          map (\<lambda>idx.
                 let round = idx + 1;
                     roundMatches =
                       sortBy (\<lambda>a b. int (match_court a) - int (match_court b))
                         (filter (\<lambda>m. match_round m = round) (session_matches s))
                 in if isSwapped s round then [at roundMatches 1, at roundMatches 0]
                    else map Some roundMatches)
              [0..<TOTAL_ROUNDS])"

text \<open>
  \<open>defaultSessionName\<close> is computed from the clock when the module is loaded; the two
  commands that read it take it as an argument, \<open>createSession\<close> after the two host
  functions.
\<close>

definition createSession ::
    "(string \<Rightarrow> string) \<Rightarrow> (string \<Rightarrow> string) \<Rightarrow> string \<Rightarrow> app \<Rightarrow> app" where
  "createSession trim toLowerCase defaultSessionName st =
     (let names = map trim (playerInputs st);
          hasInvalid = list_ex (\<lambda>name. name = []) names
      in if hasInvalid then st\<lparr>message := ''Please enter exactly 8 player names.''\<rparr>
         else
           let unique = set (map toLowerCase names)
           in if card unique \<noteq> 8 then st\<lparr>message := ''Player names must be unique.''\<rparr>
              else
                let players = map (\<lambda>(id, name). \<lparr>player_id = id, player_name = name\<rparr>)
                                (enumerate 0 names);
                    nextSession =
                      \<lparr>session_name =
                         (if trim (sessionNameInput st) = [] then defaultSessionName
                          else trim (sessionNameInput st)),
                       session_players = players,
                       session_matches = generateMatches,
                       session_courtSwapByRound = Map.empty\<rparr>
                in (persistSession nextSession st)\<lparr>message := []\<rparr>)"

definition toggleCourtSwap :: "nat \<Rightarrow> app \<Rightarrow> app" where
  "toggleCourtSwap round st =
     (case session st of
        None \<Rightarrow> st
      | Some s \<Rightarrow>
          persistSession
            (s\<lparr>session_courtSwapByRound :=
                 (session_courtSwapByRound s)(round \<mapsto> \<not> isSwapped s round)\<rparr>)
            st)"

definition updateScore :: "string \<Rightarrow> int \<Rightarrow> app \<Rightarrow> app" where
  "updateScore matchId scoreA st =
     (case session st of
        None \<Rightarrow> st
      | Some s \<Rightarrow>
          (let clamped = max 0 (min (pointsValue (totalPoints st)) scoreA)
           in persistSession
                (s\<lparr>session_matches :=
                     map (\<lambda>m. if match_id m = matchId then m\<lparr>match_scoreA := Some clamped\<rparr> else m)
                         (session_matches s)\<rparr>)
                st))"

text \<open>
  The \<open>onChange\<close> handler of a score input. Its argument is \<open>Number(e.target.value)\<close>,
  with \<open>None\<close> for \<open>NaN\<close>: then the handler returns before calling \<open>updateScore\<close>.
\<close>

definition scoreInputChange :: "string \<Rightarrow> int option \<Rightarrow> app \<Rightarrow> app" where
  "scoreInputChange matchId v st =
     (case v of None \<Rightarrow> st | Some scoreA \<Rightarrow> updateScore matchId scoreA st)"

definition resetSession :: "string \<Rightarrow> app \<Rightarrow> app" where
  "resetSession defaultSessionName st =
     st\<lparr>storedSession := None,
        session := None,
        sessionNameInput := defaultSessionName,
        playerInputs := initialPlayerInputs,
        activeTab := Matches,
        message := ''Session reset.''\<rparr>"

section \<open>Vocabulary of the properties\<close>

text \<open>The matches of one round, the teams of a list of matches, and membership of a team.\<close>

definition matchesInRound :: "nat \<Rightarrow> match list \<Rightarrow> match list" where
  "matchesInRound r ms = filter (\<lambda>m. match_round m = r) ms"

definition teamsOf :: "match list \<Rightarrow> team list" where
  "teamsOf ms = concat (map (\<lambda>m. [match_teamA m, match_teamB m]) ms)"

definition inTeam :: "nat \<Rightarrow> team \<Rightarrow> bool" where
  "inTeam p t = (p = fst (team_players t) \<or> p = snd (team_players t))"

text \<open>
  A session whose matches only name participants of the session, each participant id
  occurring once in the roster: what \<open>createSession\<close> builds.
\<close>

definition knownTeam :: "session \<Rightarrow> team \<Rightarrow> bool" where
  "knownTeam s t \<longleftrightarrow>
     fst (team_players t) \<in> player_id ` set (session_players s) \<and>
     snd (team_players t) \<in> player_id ` set (session_players s)"

definition rosterConsistent :: "session \<Rightarrow> bool" where
  "rosterConsistent s \<longleftrightarrow>
     distinct (map player_id (session_players s)) \<and>
     (\<forall>m \<in> set (session_matches s). knownTeam s (match_teamA m) \<and> knownTeam s (match_teamB m))"

definition isPlayed :: "match \<Rightarrow> bool" where
  "isPlayed m \<longleftrightarrow> match_scoreA m \<noteq> None"

definition playedCount :: "app \<Rightarrow> nat" where
  "playedCount st =
     (case session st of None \<Rightarrow> 0 | Some s \<Rightarrow> length (filter isPlayed (session_matches s)))"

text \<open>The points that a \<open>totals\<close> map holds for a set of participant ids.\<close>

definition pointsOver :: "nat set \<Rightarrow> totals \<Rightarrow> int" where
  "pointsOver S t = (\<Sum>i\<in>S. tally_points (the (t i)))"


text \<open>
  Example states: the filled form of a new session, the session created from it, the
  session with the court-1 match of round 1 scored 20, and the session with every match
  scored 16.
\<close>

definition formApp :: app where
  "formApp =
     \<lparr>totalPoints = TP32, session = None, sessionNameInput = ''Test'',
      playerInputs = [''P1'', ''P2'', ''P3'', ''P4'', ''P5'', ''P6'', ''P7'', ''P8''],
      activeTab = Matches, message = [], storedSession = None, storedTotalPoints = None\<rparr>"

definition createdApp :: app where
  "createdApp = createSession asciiTrim asciiToLowerCase ''Americano'' formApp"

definition scoredApp :: app where
  "scoredApp = updateScore ''r1c1'' 20 createdApp"

definition fullyScoredApp :: app where
  "fullyScoredApp = fold (\<lambda>m. updateScore (match_id m) 16) generateMatches createdApp"

definition matchCount :: "app \<Rightarrow> nat" where
  "matchCount st = (case session st of None \<Rightarrow> 0 | Some s \<Rightarrow> length (session_matches s))"

text \<open>The matches of the current session (none without a session) and what a command may read of it.\<close>

definition matchesOf :: "app \<Rightarrow> match list" where
  "matchesOf st = (case session st of None \<Rightarrow> [] | Some s \<Rightarrow> session_matches s)"

definition swapEntry :: "app \<Rightarrow> nat \<Rightarrow> bool option" where
  "swapEntry st round = (case session st of None \<Rightarrow> None | Some s \<Rightarrow> session_courtSwapByRound s round)"

definition swappedIn :: "app \<Rightarrow> nat \<Rightarrow> bool" where
  "swappedIn st round = (case session st of None \<Rightarrow> False | Some s \<Rightarrow> isSwapped s round)"

definition playedAt :: "app \<Rightarrow> nat \<Rightarrow> bool" where
  "playedAt st i \<longleftrightarrow> i < length (matchesOf st) \<and> isPlayed (matchesOf st ! i)"

text \<open>Clamping into an interval, as the specification words it.\<close>

definition clampInto :: "int \<Rightarrow> int \<Rightarrow> int \<Rightarrow> int" where
  "clampInto lo hi v = (if v < lo then lo else if hi < v then hi else v)"

text \<open>The two conditions under which \<open>createSession\<close> stops with a message.\<close>

definition createSessionRejects ::
    "(string \<Rightarrow> string) \<Rightarrow> (string \<Rightarrow> string) \<Rightarrow> app \<Rightarrow> bool" where
  "createSessionRejects trim toLowerCase st \<longleftrightarrow>
     (\<exists>n \<in> set (playerInputs st). trim n = []) \<or>
     card (set (map toLowerCase (map trim (playerInputs st)))) \<noteq> 8"

text \<open>
  The commands that the rendered page offers besides Reset. The form with the button
  \<open>Create session\<close> is rendered only while there is no session, and the score inputs
  and the swap buttons only while there is one; the selector of the scoring scale is
  always there.
\<close>

datatype command =
    CreateSession
  | UpdateScore string "int option"
  | ToggleCourtSwap nat
  | SetScoringScale totalPoints

fun perform ::
    "(string \<Rightarrow> string) \<Rightarrow> (string \<Rightarrow> string) \<Rightarrow> string \<Rightarrow> command \<Rightarrow> app \<Rightarrow> app" where
  "perform trim toLowerCase defaultSessionName CreateSession st =
     (if session st = None then createSession trim toLowerCase defaultSessionName st else st)"
| "perform trim toLowerCase defaultSessionName (UpdateScore matchId v) st =
     (if session st = None then st else scoreInputChange matchId v st)"
| "perform trim toLowerCase defaultSessionName (ToggleCourtSwap round) st =
     (if session st = None then st else toggleCourtSwap round st)"
| "perform trim toLowerCase defaultSessionName (SetScoringScale nextTotalPoints) st =
     updateTotalPoints nextTotalPoints st"

text \<open>Further example states: a form with a blank name, and one with a repeated name.\<close>

definition blankNameApp :: app where
  "blankNameApp = formApp\<lparr>playerInputs := (playerInputs formApp)[2 := ''   '']\<rparr>"

definition repeatedNameApp :: app where
  "repeatedNameApp = formApp\<lparr>playerInputs := (playerInputs formApp)[2 := '' p1 '']\<rparr>"

text \<open>
  A stored score is not negative, and it is within a scoring scale; and the session with
  the first match scored 30.
\<close>

definition scoreNonNegative :: "match \<Rightarrow> bool" where
  "scoreNonNegative m = (case match_scoreA m of None \<Rightarrow> True | Some a \<Rightarrow> 0 \<le> a)"

definition scoreWithin :: "int \<Rightarrow> match \<Rightarrow> bool" where
  "scoreWithin scale m = (case match_scoreA m of None \<Rightarrow> True | Some a \<Rightarrow> 0 \<le> a \<and> a \<le> scale)"

definition thirtyApp :: app where
  "thirtyApp = updateScore ''r1c1'' 30 createdApp"

text \<open>
  What holds of every session that the commands build: the roster and the matches fit, there
  are 8 participants and 14 matches, and every stored score is an integer from 0 to the
  current scoring scale.
\<close>

definition wellFormed :: "app \<Rightarrow> bool" where
  "wellFormed st \<longleftrightarrow>
     (case session st of
        None \<Rightarrow> True
      | Some s \<Rightarrow>
          rosterConsistent s \<and> length (session_players s) = 8 \<and>
          length (session_matches s) = 14 \<and>
          (\<forall>m \<in> set (session_matches s). scoreNonNegative m) \<and>
          (\<forall>m \<in> set (session_matches s). scoreWithin (pointsValue (totalPoints st)) m))"

section \<open>The generated schedule\<close>

text \<open>
  Claim C1. \<open>generateMatches\<close> takes no input and returns 14 matches. For every round
  \<open>r\<close> from 1 to 7 the matches of the round are two, in this order: the match on court 1
  between the first and the second pair of row \<open>r\<close> of the pairing table, and the match on
  court 2 between the third and the fourth pair; both are unplayed. No match belongs to
  another round.
\<close>

theorem generateMatches_schedule:
  "length generateMatches = 14 \<and>
   (\<forall>r \<in> {1..7}.
      map (\<lambda>m. (match_court m, team_players (match_teamA m), team_players (match_teamB m),
                 match_scoreA m))
          (matchesInRound r generateMatches) =
        [(1, pairingsByRound ! (r - 1) ! 0, pairingsByRound ! (r - 1) ! 1, None),
         (2, pairingsByRound ! (r - 1) ! 2, pairingsByRound ! (r - 1) ! 3, None)]) \<and>
   (\<forall>m \<in> set generateMatches. match_scoreA m = None \<and> match_round m \<in> {1..7})"
  by code_simp

theorem generateMatches_schedule_witness:
  "(3::nat) \<in> {1..7} \<and>
   map (\<lambda>m. (match_court m, team_players (match_teamA m), team_players (match_teamB m),
              match_scoreA m))
       (matchesInRound 3 generateMatches) =
     [(1, (0, 5), (6, 4), None), (2, (7, 3), (1, 2), None)]"
proof -
  have r: "(3::nat) \<in> {1..7}" by simp
  from generateMatches_schedule have
    "\<forall>r \<in> {1..7}.
      map (\<lambda>m. (match_court m, team_players (match_teamA m), team_players (match_teamB m),
                 match_scoreA m))
          (matchesInRound r generateMatches) =
        [(1, pairingsByRound ! (r - 1) ! 0, pairingsByRound ! (r - 1) ! 1, None),
         (2, pairingsByRound ! (r - 1) ! 2, pairingsByRound ! (r - 1) ! 3, None)]"
    by (rule conjunct1 [OF conjunct2])
  from bspec [OF this r] show ?thesis
    by (simp add: pairingsByRound_def)
qed

text \<open>
  Claim C2. In the generated schedule every participant id from 0 to 7 is in exactly one
  team of every round, hence in exactly 7 matches; the schedule has 28 teams, and any two
  different ids are together in exactly one of them.
\<close>

theorem schedule_partnerships:
  "(\<forall>p \<in> {0..7}. \<forall>r \<in> {1..7}.
      length (filter (inTeam p) (teamsOf (matchesInRound r generateMatches))) = 1) \<and>
   (\<forall>p \<in> {0..7}.
      length (filter (\<lambda>m. inTeam p (match_teamA m) \<or> inTeam p (match_teamB m)) generateMatches) = 7) \<and>
   length (teamsOf generateMatches) = 28 \<and>
   (\<forall>a \<in> {0..7}. \<forall>b \<in> {0..7}. a \<noteq> b \<longrightarrow>
      length (filter (\<lambda>t. inTeam a t \<and> inTeam b t) (teamsOf generateMatches)) = 1)"
  by code_simp

theorem schedule_partnerships_witness:
  "(2::nat) \<in> {0..7} \<and> (5::nat) \<in> {0..7} \<and> (4::nat) \<in> {1..7} \<and> (2::nat) \<noteq> 5 \<and>
   length (filter (inTeam 2) (teamsOf (matchesInRound 4 generateMatches))) = 1 \<and>
   length (filter (\<lambda>m. inTeam 2 (match_teamA m) \<or> inTeam 2 (match_teamB m)) generateMatches) = 7 \<and>
   length (filter (\<lambda>t. inTeam 2 t \<and> inTeam 5 t) (teamsOf generateMatches)) = 1"
  using schedule_partnerships by simp

section \<open>The standings\<close>

text \<open>Sorting rearranges the rows and loses none.\<close>

lemma mset_insertBy: "mset (insertBy c x xs) = add_mset x (mset xs)"
  by (induction xs) auto

lemma mset_sortBy: "mset (sortBy c xs) = mset xs"
  by (induction xs) (auto simp: sortBy_def mset_insertBy)

text \<open>
  The \<open>totals\<close> map has a row for exactly the ids of the roster, crediting keeps its
  domain, and a credit to an id of the roster adds the score to the sum of the points.
\<close>

lemma fold_upd_apply:
  "fold (\<lambda>p t. t(player_id p \<mapsto> z)) ps t0 i =
     (if i \<in> player_id ` set ps then Some z else t0 i)"
  by (induction ps arbitrary: t0) simp_all

lemma dom_initTotals: "dom (initTotals ps) = player_id ` set ps"
  by (auto simp: initTotals_def fold_upd_apply dom_def)

lemma pointsOver_initTotals: "pointsOver (player_id ` set ps) (initTotals ps) = 0"
  by (simp add: pointsOver_def initTotals_def fold_upd_apply)

lemma dom_credit: "dom (credit sc p t) = dom t"
  by (auto simp: credit_def split: option.splits)

lemma pointsOver_credit:
  assumes "finite S" and "p \<in> S" and "p \<in> dom t"
  shows "pointsOver S (credit sc p t) = pointsOver S t + sc"
proof -
  from assms(3) obtain row where row: "t p = Some row" by auto
  have rest: "(\<Sum>i\<in>S - {p}. tally_points (the (credit sc p t i))) =
              (\<Sum>i\<in>S - {p}. tally_points (the (t i)))"
    by (rule sum.cong) (auto simp: credit_def row)
  have "pointsOver S (credit sc p t) =
          tally_points (the (credit sc p t p)) + (\<Sum>i\<in>S - {p}. tally_points (the (credit sc p t i)))"
    unfolding pointsOver_def using assms(1,2) by (rule sum.remove)
  also have "\<dots> = (tally_points row + sc) + (\<Sum>i\<in>S - {p}. tally_points (the (t i)))"
    by (simp add: rest) (simp add: credit_def row)
  also have "\<dots> = (tally_points (the (t p)) + (\<Sum>i\<in>S - {p}. tally_points (the (t i)))) + sc"
    by (simp add: row)
  also have "tally_points (the (t p)) + (\<Sum>i\<in>S - {p}. tally_points (the (t i))) = pointsOver S t"
    unfolding pointsOver_def using assms(1,2) by (rule sum.remove [symmetric])
  finally show ?thesis .
qed


lemma dom_tallyMatch: "dom (tallyMatch tp m t) = dom t"
  by (simp add: tallyMatch_def dom_credit Let_def split: option.splits)

lemma tallyMatch_unplayed: "\<not> isPlayed m \<Longrightarrow> tallyMatch tp m t = t"
  by (simp add: tallyMatch_def isPlayed_def)

lemma tallyMatch_played:
  "match_scoreA m = Some a \<Longrightarrow>
   tallyMatch tp m t =
     credit (tp - a) (snd (team_players (match_teamB m)))
       (credit (tp - a) (fst (team_players (match_teamB m)))
         (credit a (snd (team_players (match_teamA m)))
           (credit a (fst (team_players (match_teamA m))) t)))"
  by (simp add: tallyMatch_def Let_def)

lemma pointsOver_tallyMatch:
  assumes "finite S" and "S = dom t" and "isPlayed m"
    and "fst (team_players (match_teamA m)) \<in> S" and "snd (team_players (match_teamA m)) \<in> S"
    and "fst (team_players (match_teamB m)) \<in> S" and "snd (team_players (match_teamB m)) \<in> S"
  shows "pointsOver S (tallyMatch tp m t) = pointsOver S t + 2 * tp"
proof -
  from assms(3) obtain a where a: "match_scoreA m = Some a" by (auto simp: isPlayed_def)
  let ?t1 = "credit a (fst (team_players (match_teamA m))) t"
  let ?t2 = "credit a (snd (team_players (match_teamA m))) ?t1"
  let ?t3 = "credit (tp - a) (fst (team_players (match_teamB m))) ?t2"
  let ?t4 = "credit (tp - a) (snd (team_players (match_teamB m))) ?t3"
  have d1: "dom ?t1 = S" and d2: "dom ?t2 = S" and d3: "dom ?t3 = S"
    using assms(2) by (simp_all only: dom_credit)
  have "pointsOver S ?t1 = pointsOver S t + a"
    using assms(1,2,4) by (intro pointsOver_credit) simp_all
  moreover have "pointsOver S ?t2 = pointsOver S ?t1 + a"
    using assms(1,5) d1 by (intro pointsOver_credit) simp_all
  moreover have "pointsOver S ?t3 = pointsOver S ?t2 + (tp - a)"
    using assms(1,6) d2 by (intro pointsOver_credit) simp_all
  moreover have "pointsOver S ?t4 = pointsOver S ?t3 + (tp - a)"
    using assms(1,7) d3 by (intro pointsOver_credit) simp_all
  ultimately have "pointsOver S ?t4 = pointsOver S t + 2 * tp" by linarith
  then show ?thesis by (simp only: tallyMatch_played [OF a])
qed

lemma pointsOver_fold_tallyMatch:
  assumes "finite S" and "S = dom t"
    and "\<forall>m \<in> set ms. fst (team_players (match_teamA m)) \<in> S \<and> snd (team_players (match_teamA m)) \<in> S \<and>
                          fst (team_players (match_teamB m)) \<in> S \<and> snd (team_players (match_teamB m)) \<in> S"
  shows "pointsOver S (fold (tallyMatch tp) ms t) =
           pointsOver S t + 2 * tp * int (length (filter isPlayed ms))"
  using assms
proof (induction ms arbitrary: t)
  case Nil
  then show ?case by simp
next
  case (Cons m ms)
  have d: "S = dom (tallyMatch tp m t)" using Cons.prems(2) by (simp add: dom_tallyMatch)
  have ih: "pointsOver S (fold (tallyMatch tp) ms (tallyMatch tp m t)) =
              pointsOver S (tallyMatch tp m t) + 2 * tp * int (length (filter isPlayed ms))"
    using Cons.prems(3) by (intro Cons.IH [OF Cons.prems(1) d]) simp
  show ?case
  proof (cases "isPlayed m")
    case True
    have "pointsOver S (tallyMatch tp m t) = pointsOver S t + 2 * tp"
      using Cons.prems True by (intro pointsOver_tallyMatch) simp_all
    with ih True show ?thesis by (simp add: algebra_simps)
  next
    case False
    with ih show ?thesis by (simp add: tallyMatch_unplayed)
  qed
qed


lemma dom_fold_tallyMatch: "dom (fold (tallyMatch tp) ms t) = dom t"
  by (induction ms arbitrary: t) (simp_all add: dom_tallyMatch)

text \<open>So the row that \<open>standings\<close> reads for a participant of the roster is there.\<close>

lemma standings_row_defined:
  assumes "p \<in> set ps"
  shows "fold (tallyMatch tp) ms (initTotals ps) (player_id p) \<noteq> None"
proof -
  from assms have "player_id p \<in> dom (fold (tallyMatch tp) ms (initTotals ps))"
    by (simp add: dom_fold_tallyMatch dom_initTotals)
  then show ?thesis by (simp add: domIff)
qed

lemma sum_list_map_mset_eq:
  assumes "mset xs = mset ys"
  shows "sum_list (map f xs) = (sum_list (map f ys) :: int)"
proof -
  have "mset (map f xs) = mset (map f ys)" using assms by simp
  then have "sum_mset (mset (map f xs)) = sum_mset (mset (map f ys))" by (rule arg_cong)
  then show ?thesis by (simp only: sum_mset_sum_list)
qed

lemma standings_Some:
  "session st = Some s \<Longrightarrow>
   standings lc st =
     sortBy (standingsCompare lc)
       (map (\<lambda>p. \<lparr>row_player = p,
                   row_points = tally_points (the (fold (tallyMatch (pointsValue (totalPoints st)))
                        (session_matches s) (initTotals (session_players s)) (player_id p))),
                   row_matchesPlayed = tally_matchesPlayed (the (fold (tallyMatch (pointsValue (totalPoints st)))
                        (session_matches s) (initTotals (session_players s)) (player_id p)))\<rparr>)
            (session_players s))"
  by (simp add: standings_def Let_def)

lemma standings_points_sum:
  assumes "session st = Some s" and "rosterConsistent s"
  shows "sum_list (map row_points (standings lc st)) =
           2 * pointsValue (totalPoints st) * int (length (filter isPlayed (session_matches s)))"
proof -
  let ?S = "player_id ` set (session_players s)"
  let ?t = "fold (tallyMatch (pointsValue (totalPoints st))) (session_matches s)
              (initTotals (session_players s))"
  let ?rows = "map (\<lambda>p. \<lparr>row_player = p,
                            row_points = tally_points (the (?t (player_id p))),
                            row_matchesPlayed = tally_matchesPlayed (the (?t (player_id p)))\<rparr>)
                     (session_players s)"
  have st: "standings lc st = sortBy (standingsCompare lc) ?rows"
    using assms(1) by (rule standings_Some)
  have dist: "distinct (map player_id (session_players s))"
    using assms(2) by (simp add: rosterConsistent_def)
  have known: "\<forall>m \<in> set (session_matches s).
      fst (team_players (match_teamA m)) \<in> ?S \<and> snd (team_players (match_teamA m)) \<in> ?S \<and>
      fst (team_players (match_teamB m)) \<in> ?S \<and> snd (team_players (match_teamB m)) \<in> ?S"
    using assms(2) by (simp add: rosterConsistent_def knownTeam_def)
  have "sum_list (map row_points (standings lc st)) = sum_list (map row_points ?rows)"
    unfolding st by (rule sum_list_map_mset_eq) (rule mset_sortBy)
  also have "\<dots> = sum_list (map (\<lambda>i. tally_points (the (?t i))) (map player_id (session_players s)))"
    by (simp add: comp_def)
  also have "\<dots> = pointsOver ?S ?t"
    unfolding pointsOver_def using dist by (simp only: sum_list_distinct_conv_sum_set set_map)
  also have "\<dots> = pointsOver ?S (initTotals (session_players s)) +
                   2 * pointsValue (totalPoints st) * int (length (filter isPlayed (session_matches s)))"
  proof (rule pointsOver_fold_tallyMatch)
    show "finite ?S" by simp
    show "?S = dom (initTotals (session_players s))" by (simp only: dom_initTotals)
    show "\<forall>m \<in> set (session_matches s).
      fst (team_players (match_teamA m)) \<in> ?S \<and> snd (team_players (match_teamA m)) \<in> ?S \<and>
      fst (team_players (match_teamB m)) \<in> ?S \<and> snd (team_players (match_teamB m)) \<in> ?S"
      by (rule known)
  qed
  finally show ?thesis by (simp only: pointsOver_initTotals)
qed

lemma formApp_names:
  "map asciiTrim (playerInputs formApp) = [''P1'', ''P2'', ''P3'', ''P4'', ''P5'', ''P6'', ''P7'', ''P8'']"
  "card (set (map asciiToLowerCase [''P1'', ''P2'', ''P3'', ''P4'', ''P5'', ''P6'', ''P7'', ''P8''])) = 8"
  "asciiTrim (sessionNameInput formApp) = ''Test''"
  by code_simp+

lemma createdApp_session:
  "session createdApp =
     Some \<lparr>session_name = ''Test'',
           session_players =
             [\<lparr>player_id = 0, player_name = ''P1''\<rparr>, \<lparr>player_id = 1, player_name = ''P2''\<rparr>,
              \<lparr>player_id = 2, player_name = ''P3''\<rparr>, \<lparr>player_id = 3, player_name = ''P4''\<rparr>,
              \<lparr>player_id = 4, player_name = ''P5''\<rparr>, \<lparr>player_id = 5, player_name = ''P6''\<rparr>,
              \<lparr>player_id = 6, player_name = ''P7''\<rparr>, \<lparr>player_id = 7, player_name = ''P8''\<rparr>],
           session_matches = generateMatches,
           session_courtSwapByRound = Map.empty\<rparr>"
  unfolding createdApp_def createSession_def Let_def formApp_names
  by (simp add: persistSession_def enumerate_eq_zip upt_rec)

text \<open>
  Claim C3, as the code has it, for integer scores. Every played match credits its score
  to both participants of team A and the complement to both participants of team B, so it
  adds twice the scoring scale to the sum of the points. In a session whose matches name
  participants of its roster, with all 14 matches played and every score an integer from
  0 to the scoring scale, the sum of the points is 28 times the scoring scale, not 14
  times. Scores with a fraction are not covered: the code adds them in doubles, and their
  sums need not be exact.
\<close>

theorem standings_points_total:
  assumes "session st = Some s"
    and "rosterConsistent s"
    and "length (session_matches s) = 14"
    and "\<forall>m \<in> set (session_matches s). isPlayed m"
    and "\<forall>m \<in> set (session_matches s). scoreWithin (pointsValue (totalPoints st)) m"
  shows "sum_list (map row_points (standings localeCompare st)) = 28 * pointsValue (totalPoints st)"
proof -
  have "filter isPlayed (session_matches s) = session_matches s"
    using assms(4) by simp
  then have "int (length (filter isPlayed (session_matches s))) = 14"
    using assms(3) by simp
  with standings_points_sum [OF assms(1,2), of localeCompare] show ?thesis
    by simp
qed

theorem standings_points_total_witness:
  "matchCount fullyScoredApp = 14 \<and> playedCount fullyScoredApp = 14 \<and>
   sum_list (map row_points (standings lexicographicCompare fullyScoredApp)) =
     28 * pointsValue (totalPoints fullyScoredApp)"
proof -
  have ev: "case session fullyScoredApp of
              None \<Rightarrow> False
            | Some s \<Rightarrow> rosterConsistent s \<and> length (session_matches s) = 14 \<and>
                        (\<forall>m \<in> set (session_matches s). isPlayed m) \<and>
                        (\<forall>m \<in> set (session_matches s).
                           scoreWithin (pointsValue (totalPoints fullyScoredApp)) m)"
    by code_simp
  then obtain s where s: "session fullyScoredApp = Some s" and r: "rosterConsistent s"
    and l: "length (session_matches s) = 14" and p: "\<forall>m \<in> set (session_matches s). isPlayed m"
    and w: "\<forall>m \<in> set (session_matches s). scoreWithin (pointsValue (totalPoints fullyScoredApp)) m"
    by (auto split: option.splits)
  have "matchCount fullyScoredApp = 14" "playedCount fullyScoredApp = 14"
    by code_simp+
  with standings_points_total [OF s r l p w, of lexicographicCompare] show ?thesis
    by simp
qed

text \<open>
  The claim as it was stated, 14 times the scoring scale, fails on the session in which
  every match is scored 16 under the scale 32: the points add up to 896, not to 448. On
  the integers 16 and 32 the additions of the code are exact.
\<close>

theorem standings_points_total_counterexample:
  "matchCount fullyScoredApp = 14 \<and> playedCount fullyScoredApp = 14 \<and>
   sum_list (map row_points (standings lexicographicCompare fullyScoredApp)) \<noteq>
     14 * pointsValue (totalPoints fullyScoredApp)"
  by code_simp

subsection \<open>Order of the rows\<close>










text \<open>The scenario of the specification: after one score of 20 the table reads as follows.\<close>

lemma standings_scenario:
  "map (\<lambda>r. (player_name (row_player r), row_points r, row_matchesPlayed r))
       (standings lexicographicCompare scoredApp) =
     [(''P1'', 20, 1), (''P8'', 20, 1), (''P2'', 12, 1), (''P7'', 12, 1),
      (''P3'', 0, 0), (''P4'', 0, 0), (''P5'', 0, 0), (''P6'', 0, 0)]"
  by code_simp

section \<open>Entering a score\<close>

lemma pointsValue_nonneg: "0 \<le> pointsValue n"
  by (cases n) simp_all

lemma clamp_max_min: "0 \<le> hi \<Longrightarrow> max 0 (min hi v) = clampInto 0 hi v"
  by (simp add: clampInto_def max_def min_def)

lemma matchesOf_updateScore:
  "matchesOf (updateScore mid v st) =
     map (\<lambda>m. if match_id m = mid
               then m\<lparr>match_scoreA := Some (clampInto 0 (pointsValue (totalPoints st)) v)\<rparr> else m)
         (matchesOf st)"
  by (simp add: matchesOf_def updateScore_def persistSession_def Let_def
        clamp_max_min pointsValue_nonneg split: option.splits)

lemma updateScore_frame:
  "map_option session_name (session (updateScore mid v st)) = map_option session_name (session st)"
  "map_option session_players (session (updateScore mid v st)) = map_option session_players (session st)"
  "map_option session_courtSwapByRound (session (updateScore mid v st)) =
     map_option session_courtSwapByRound (session st)"
  "totalPoints (updateScore mid v st) = totalPoints st"
  by (simp_all add: updateScore_def persistSession_def Let_def split: option.splits)

lemma updateScore_no_match:
  assumes "mid \<notin> match_id ` set (matchesOf st)"
  shows "session (updateScore mid v st) = session st"
proof (cases "session st")
  case None
  then show ?thesis by (simp add: updateScore_def)
next
  case (Some s)
  with assms have "\<forall>m \<in> set (session_matches s). match_id m \<noteq> mid"
    by (auto simp: matchesOf_def)
  then have "map (\<lambda>m. if match_id m = mid then m\<lparr>match_scoreA := Some c\<rparr> else m) (session_matches s) =
             session_matches s" for c
    by (intro map_idI) simp
  with Some show ?thesis
    by (simp add: updateScore_def persistSession_def Let_def)
qed

text \<open>
  Claim C4. \<open>updateScore\<close> with a number sets the score of every match that has the given
  id to the number clamped into the interval from 0 to the scoring scale, and leaves every
  other match, the number of matches, the name, the roster, the swap flags and the
  scoring scale as they were. With an id that no match has, the session stays as it was,
  and so does the whole state when the input is not a number.
\<close>

theorem updateScore_clamps:
  "length (matchesOf (updateScore mid v st)) = length (matchesOf st) \<and>
   (\<forall>i < length (matchesOf st).
      matchesOf (updateScore mid v st) ! i =
        (if match_id (matchesOf st ! i) = mid
         then (matchesOf st ! i)\<lparr>match_scoreA := Some (clampInto 0 (pointsValue (totalPoints st)) v)\<rparr>
         else matchesOf st ! i)) \<and>
   0 \<le> clampInto 0 (pointsValue (totalPoints st)) v \<and>
   clampInto 0 (pointsValue (totalPoints st)) v \<le> pointsValue (totalPoints st) \<and>
   map_option session_name (session (updateScore mid v st)) = map_option session_name (session st) \<and>
   map_option session_players (session (updateScore mid v st)) =
     map_option session_players (session st) \<and>
   map_option session_courtSwapByRound (session (updateScore mid v st)) =
     map_option session_courtSwapByRound (session st) \<and>
   totalPoints (updateScore mid v st) = totalPoints st \<and>
   (mid \<notin> match_id ` set (matchesOf st) \<longrightarrow> session (updateScore mid v st) = session st) \<and>
   scoreInputChange mid (Some v) st = updateScore mid v st \<and>
   scoreInputChange mid None st = st"
proof -
  have "0 \<le> clampInto 0 (pointsValue (totalPoints st)) v"
    "clampInto 0 (pointsValue (totalPoints st)) v \<le> pointsValue (totalPoints st)"
    using pointsValue_nonneg [of "totalPoints st"] by (simp_all add: clampInto_def)
  moreover have "\<forall>i < length (matchesOf st).
      matchesOf (updateScore mid v st) ! i =
        (if match_id (matchesOf st ! i) = mid
         then (matchesOf st ! i)\<lparr>match_scoreA := Some (clampInto 0 (pointsValue (totalPoints st)) v)\<rparr>
         else matchesOf st ! i)"
    by (simp add: matchesOf_updateScore)
  moreover have "length (matchesOf (updateScore mid v st)) = length (matchesOf st)"
    by (simp add: matchesOf_updateScore)
  ultimately show ?thesis
    using updateScore_frame [of mid v st] updateScore_no_match [of mid st v]
    by (simp add: scoreInputChange_def)
qed

lemma createdApp_facts:
  "length (matchesOf createdApp) = 14"
  "match_id (matchesOf createdApp ! 0) = ''r1c1''"
  "pointsValue (totalPoints createdApp) = 32"
  "''zz'' \<notin> match_id ` set (matchesOf createdApp)"
  by code_simp+

theorem updateScore_clamps_witness:
  "(0::nat) < length (matchesOf createdApp) \<and>
   match_scoreA (matchesOf (updateScore ''r1c1'' 40 createdApp) ! 0) = Some 32 \<and>
   match_scoreA (matchesOf (updateScore ''r1c1'' (- 3) createdApp) ! 0) = Some 0 \<and>
   ''zz'' \<notin> match_id ` set (matchesOf createdApp) \<and>
   session (updateScore ''zz'' 40 createdApp) = session createdApp"
proof -
  have i: "(0::nat) < length (matchesOf createdApp)"
    by (simp add: createdApp_facts)
  from updateScore_clamps [of "''r1c1''" 40 createdApp] i
  have "matchesOf (updateScore ''r1c1'' 40 createdApp) ! 0 =
          (matchesOf createdApp ! 0)\<lparr>match_scoreA := Some (clampInto 0 32 40)\<rparr>"
    by (simp add: createdApp_facts)
  moreover from updateScore_clamps [of "''r1c1''" "- 3" createdApp] i
  have "matchesOf (updateScore ''r1c1'' (- 3) createdApp) ! 0 =
          (matchesOf createdApp ! 0)\<lparr>match_scoreA := Some (clampInto 0 32 (- 3))\<rparr>"
    by (simp add: createdApp_facts)
  moreover from updateScore_clamps [of "''zz''" 40 createdApp]
  have "session (updateScore ''zz'' 40 createdApp) = session createdApp"
    by (simp add: createdApp_facts)
  ultimately show ?thesis
    using i by (simp add: clampInto_def createdApp_facts)
qed

section \<open>Changing the scoring scale\<close>

lemma matchesOf_updateTotalPoints:
  "matchesOf (updateTotalPoints n st) =
     map (\<lambda>m. case match_scoreA m of
                 None \<Rightarrow> m
               | Some a \<Rightarrow> m\<lparr>match_scoreA := Some (max 0 (min (pointsValue n) a))\<rparr>)
         (matchesOf st)"
  by (simp add: matchesOf_def updateTotalPoints_def persistSession_def Let_def split: option.splits)

lemma updateTotalPoints_frame:
  "totalPoints (updateTotalPoints n st) = n"
  "map_option session_name (session (updateTotalPoints n st)) = map_option session_name (session st)"
  "map_option session_players (session (updateTotalPoints n st)) =
     map_option session_players (session st)"
  "map_option session_courtSwapByRound (session (updateTotalPoints n st)) =
     map_option session_courtSwapByRound (session st)"
  by (simp_all add: updateTotalPoints_def persistSession_def Let_def split: option.splits)

lemma reclamp_score:
  "i < length (matchesOf st) \<Longrightarrow>
   match_scoreA (matchesOf (updateTotalPoints n st) ! i) =
     map_option (\<lambda>a. max 0 (min (pointsValue n) a)) (match_scoreA (matchesOf st ! i))"
  by (simp add: matchesOf_updateTotalPoints split: option.splits)

lemma length_matchesOf_updateTotalPoints:
  "length (matchesOf (updateTotalPoints n st)) = length (matchesOf st)"
  by (simp add: matchesOf_updateTotalPoints)

text \<open>
  Claim C5. In a state whose stored scores are not negative, \<open>updateTotalPoints\<close> sets
  the scoring scale to the new value and replaces every present score by the smaller of
  the score and the new scale; an unplayed match stays unplayed, and the number of
  matches, the name, the roster and the swap flags stay as they were. So no score grows,
  a score within the new scale is kept, and a score of 30 becomes 24 under the scale 24
  and is still 24 after the scale is set back to 32.
\<close>

theorem updateTotalPoints_reclamps:
  assumes "\<forall>m \<in> set (matchesOf st). scoreNonNegative m"
  shows "totalPoints (updateTotalPoints n st) = n \<and>
    length (matchesOf (updateTotalPoints n st)) = length (matchesOf st) \<and>
    (\<forall>i < length (matchesOf st).
       matchesOf (updateTotalPoints n st) ! i =
         (matchesOf st ! i)
           \<lparr>match_scoreA := map_option (\<lambda>a. min a (pointsValue n)) (match_scoreA (matchesOf st ! i))\<rparr>) \<and>
    (\<forall>i < length (matchesOf st). \<forall>a. match_scoreA (matchesOf st ! i) = Some a \<longrightarrow>
       (\<exists>a'. match_scoreA (matchesOf (updateTotalPoints n st) ! i) = Some a' \<and> a' \<le> a \<and>
             (a \<le> pointsValue n \<longrightarrow> a' = a))) \<and>
    map_option session_name (session (updateTotalPoints n st)) = map_option session_name (session st) \<and>
    map_option session_players (session (updateTotalPoints n st)) =
      map_option session_players (session st) \<and>
    map_option session_courtSwapByRound (session (updateTotalPoints n st)) =
      map_option session_courtSwapByRound (session st) \<and>
    (\<forall>i < length (matchesOf st). match_scoreA (matchesOf st ! i) = Some 30 \<longrightarrow>
       match_scoreA (matchesOf (updateTotalPoints TP24 st) ! i) = Some 24 \<and>
       match_scoreA (matchesOf (updateTotalPoints TP32 (updateTotalPoints TP24 st)) ! i) = Some 24)"
proof -
  have nonneg: "0 \<le> a" if "i < length (matchesOf st)" "match_scoreA (matchesOf st ! i) = Some a" for i a
  proof -
    from that(1) have "matchesOf st ! i \<in> set (matchesOf st)" by (rule nth_mem)
    with assms have "scoreNonNegative (matchesOf st ! i)" by blast
    with that(2) show ?thesis by (simp add: scoreNonNegative_def)
  qed
  have upd: "matchesOf (updateTotalPoints n st) ! i =
         (matchesOf st ! i)
           \<lparr>match_scoreA := map_option (\<lambda>a. min a (pointsValue n)) (match_scoreA (matchesOf st ! i))\<rparr>"
    if "i < length (matchesOf st)" for i
  proof (cases "match_scoreA (matchesOf st ! i)")
    case None
    with that show ?thesis by (simp add: matchesOf_updateTotalPoints)
  next
    case (Some a)
    with nonneg [OF that] have "0 \<le> a" by simp
    then have "max 0 (min (pointsValue n) a) = min a (pointsValue n)"
      using pointsValue_nonneg [of n] by (simp add: max_def min_def)
    with that Some show ?thesis by (simp add: matchesOf_updateTotalPoints)
  qed
  have never_up: "\<exists>a'. match_scoreA (matchesOf (updateTotalPoints n st) ! i) = Some a' \<and> a' \<le> a \<and>
             (a \<le> pointsValue n \<longrightarrow> a' = a)"
    if "i < length (matchesOf st)" "match_scoreA (matchesOf st ! i) = Some a" for i a
    using upd [OF that(1)] that(2) by simp
  have thirty: "match_scoreA (matchesOf (updateTotalPoints TP24 st) ! i) = Some 24 \<and>
       match_scoreA (matchesOf (updateTotalPoints TP32 (updateTotalPoints TP24 st)) ! i) = Some 24"
    if "i < length (matchesOf st)" "match_scoreA (matchesOf st ! i) = Some 30" for i
  proof -
    have a: "match_scoreA (matchesOf (updateTotalPoints TP24 st) ! i) = Some 24"
      using that by (simp add: reclamp_score)
    have "i < length (matchesOf (updateTotalPoints TP24 st))"
      using that(1) by (simp add: length_matchesOf_updateTotalPoints)
    then have "match_scoreA (matchesOf (updateTotalPoints TP32 (updateTotalPoints TP24 st)) ! i) = Some 24"
      using a by (simp add: reclamp_score)
    with a show ?thesis by simp
  qed
  from upd never_up thirty show ?thesis
    by (simp add: updateTotalPoints_frame length_matchesOf_updateTotalPoints)
qed

lemma thirtyApp_facts:
  "list_all scoreNonNegative (matchesOf thirtyApp)"
  "length (matchesOf thirtyApp) = 14"
  "match_scoreA (matchesOf thirtyApp ! 0) = Some 30"
  by code_simp+

theorem updateTotalPoints_reclamps_witness:
  "list_all scoreNonNegative (matchesOf thirtyApp) \<and>
   (0::nat) < length (matchesOf thirtyApp) \<and>
   match_scoreA (matchesOf thirtyApp ! 0) = Some 30 \<and>
   totalPoints (updateTotalPoints TP24 thirtyApp) = TP24 \<and>
   match_scoreA (matchesOf (updateTotalPoints TP24 thirtyApp) ! 0) = Some 24 \<and>
   match_scoreA (matchesOf (updateTotalPoints TP32 (updateTotalPoints TP24 thirtyApp)) ! 0) = Some 24"
proof -
  have h: "\<forall>m \<in> set (matchesOf thirtyApp). scoreNonNegative m"
    using thirtyApp_facts(1) by (simp add: list_all_iff)
  have i: "(0::nat) < length (matchesOf thirtyApp)"
    by (simp add: thirtyApp_facts)
  from updateTotalPoints_reclamps [OF h, of TP24] i thirtyApp_facts show ?thesis
    by simp
qed

section \<open>Creating a session\<close>

lemma hasInvalid_iff:
  "list_ex (\<lambda>name. name = []) (map trim inputs) \<longleftrightarrow> (\<exists>n \<in> set inputs. trim n = [])"
  by (induction inputs) simp_all

lemma createSession_blank:
  assumes "\<exists>n \<in> set (playerInputs st). trim n = []"
  shows "createSession trim toLowerCase d st = st\<lparr>message := ''Please enter exactly 8 player names.''\<rparr>"
proof -
  have "list_ex (\<lambda>name. name = []) (map trim (playerInputs st))"
    using assms by (simp only: hasInvalid_iff)
  then show ?thesis
    unfolding createSession_def Let_def by (simp only: if_True)
qed

lemma createSession_repeated:
  assumes "\<forall>n \<in> set (playerInputs st). trim n \<noteq> []"
    and "card (set (map toLowerCase (map trim (playerInputs st)))) \<noteq> 8"
  shows "createSession trim toLowerCase d st = st\<lparr>message := ''Player names must be unique.''\<rparr>"
proof -
  have "\<not> list_ex (\<lambda>name. name = []) (map trim (playerInputs st))"
    using assms(1) by (simp only: hasInvalid_iff) blast
  then show ?thesis
    unfolding createSession_def Let_def
    by (simp only: if_False if_True assms(2) not_False_eq_True)
qed

lemma createSession_accepts:
  assumes "\<forall>n \<in> set (playerInputs st). trim n \<noteq> []"
    and "card (set (map toLowerCase (map trim (playerInputs st)))) = 8"
  shows "createSession trim toLowerCase d st =
     (persistSession
        \<lparr>session_name = (if trim (sessionNameInput st) = [] then d else trim (sessionNameInput st)),
         session_players = map (\<lambda>(id, name). \<lparr>player_id = id, player_name = name\<rparr>)
                             (enumerate 0 (map trim (playerInputs st))),
         session_matches = generateMatches,
         session_courtSwapByRound = Map.empty\<rparr> st)\<lparr>message := []\<rparr>"
proof -
  have "\<not> list_ex (\<lambda>name. name = []) (map trim (playerInputs st))"
    using assms(1) by (simp only: hasInvalid_iff) blast
  then show ?thesis
    unfolding createSession_def Let_def
    by (simp only: if_False assms(2) simp_thms)
qed

lemma enumerated_players:
  "map player_id (map (\<lambda>(id, name). \<lparr>player_id = id, player_name = name\<rparr>) (enumerate 0 names)) =
     [0..<length names]"
  "map player_name (map (\<lambda>(id, name). \<lparr>player_id = id, player_name = name\<rparr>) (enumerate 0 names)) =
     names"
proof -
  have "map player_id (map (\<lambda>(id, name). \<lparr>player_id = id, player_name = name\<rparr>) (enumerate 0 names)) =
          map fst (enumerate 0 names)"
    by (simp add: comp_def case_prod_beta)
  then show "map player_id (map (\<lambda>(id, name). \<lparr>player_id = id, player_name = name\<rparr>) (enumerate 0 names)) =
     [0..<length names]"
    by simp
  have "map player_name (map (\<lambda>(id, name). \<lparr>player_id = id, player_name = name\<rparr>) (enumerate 0 names)) =
          map snd (enumerate 0 names)"
    by (simp add: comp_def case_prod_beta)
  then show "map player_name (map (\<lambda>(id, name). \<lparr>player_id = id, player_name = name\<rparr>) (enumerate 0 names)) =
     names"
    by simp
qed

lemma eight_distinct:
  assumes "length xs = 8"
  shows "card (set xs) = 8 \<longleftrightarrow> distinct xs"
  using assms by (metis card_distinct distinct_card)

text \<open>
  Claim C6. With 8 name inputs, \<open>createSession\<close> trims each of them, with the \<open>trim\<close> of
  the host. If a trimmed name is empty, or if the trimmed names, put in lower case by the
  \<open>toLowerCase\<close> of the host, are not pairwise different, it only sets the message that
  says so: the session and every other part of the state stay as they were. Otherwise the
  new session has the participants with the ids 0 to 7 in the order of the inputs and the
  trimmed names, the trimmed session name or, if that is empty, the default name, the
  generated schedule and no swap flag; it is stored, and the message is cleared. This
  holds whatever the two host functions are, so for names in any script.
\<close>

theorem createSession_validates:
  assumes "length (playerInputs st) = 8"
  shows
   "((\<exists>n \<in> set (playerInputs st). trim n = []) \<longrightarrow>
       createSession trim toLowerCase d st =
         st\<lparr>message := ''Please enter exactly 8 player names.''\<rparr>) \<and>
    ((\<forall>n \<in> set (playerInputs st). trim n \<noteq> []) \<and>
     \<not> distinct (map toLowerCase (map trim (playerInputs st))) \<longrightarrow>
       createSession trim toLowerCase d st =
         st\<lparr>message := ''Player names must be unique.''\<rparr>) \<and>
    ((\<forall>n \<in> set (playerInputs st). trim n \<noteq> []) \<and>
     distinct (map toLowerCase (map trim (playerInputs st))) \<longrightarrow>
       (\<exists>s. session (createSession trim toLowerCase d st) = Some s \<and>
            storedSession (createSession trim toLowerCase d st) = Some s \<and>
            map player_id (session_players s) = [0..<8] \<and>
            map player_name (session_players s) = map trim (playerInputs st) \<and>
            session_name s =
              (if trim (sessionNameInput st) = [] then d else trim (sessionNameInput st)) \<and>
            session_matches s = generateMatches \<and>
            session_courtSwapByRound s = Map.empty) \<and>
       message (createSession trim toLowerCase d st) = [])"
proof -
  have len: "length (map toLowerCase (map trim (playerInputs st))) = 8"
    using assms by simp
  note c = eight_distinct [OF len]
  have ok: "\<exists>s. session (createSession trim toLowerCase d st) = Some s \<and>
            storedSession (createSession trim toLowerCase d st) = Some s \<and>
            map player_id (session_players s) = [0..<8] \<and>
            map player_name (session_players s) = map trim (playerInputs st) \<and>
            session_name s =
              (if trim (sessionNameInput st) = [] then d else trim (sessionNameInput st)) \<and>
            session_matches s = generateMatches \<and>
            session_courtSwapByRound s = Map.empty"
     and msg: "message (createSession trim toLowerCase d st) = []"
    if a: "\<forall>n \<in> set (playerInputs st). trim n \<noteq> []"
      and b: "distinct (map toLowerCase (map trim (playerInputs st)))"
  proof -
    from b c have card: "card (set (map toLowerCase (map trim (playerInputs st)))) = 8"
      by simp
    note eq = createSession_accepts [OF a card, where d = d]
    show "message (createSession trim toLowerCase d st) = []"
      by (simp add: eq persistSession_def)
    show "\<exists>s. session (createSession trim toLowerCase d st) = Some s \<and>
            storedSession (createSession trim toLowerCase d st) = Some s \<and>
            map player_id (session_players s) = [0..<8] \<and>
            map player_name (session_players s) = map trim (playerInputs st) \<and>
            session_name s =
              (if trim (sessionNameInput st) = [] then d else trim (sessionNameInput st)) \<and>
            session_matches s = generateMatches \<and>
            session_courtSwapByRound s = Map.empty"
      using assms by (simp add: eq persistSession_def enumerated_players del: map_map)
  qed
  have dup: "createSession trim toLowerCase d st = st\<lparr>message := ''Player names must be unique.''\<rparr>"
    if a: "\<forall>n \<in> set (playerInputs st). trim n \<noteq> []"
      and b: "\<not> distinct (map toLowerCase (map trim (playerInputs st)))"
  proof -
    from b c have "card (set (map toLowerCase (map trim (playerInputs st)))) \<noteq> 8"
      by simp
    with a show ?thesis by (rule createSession_repeated)
  qed
  from ok msg dup createSession_blank [where st = st and trim = trim and d = d and toLowerCase = toLowerCase] show ?thesis
    by blast
qed

lemma form_facts:
  "length (playerInputs blankNameApp) = 8"
  "\<exists>n \<in> set (playerInputs blankNameApp). asciiTrim n = []"
  "length (playerInputs repeatedNameApp) = 8"
  "\<forall>n \<in> set (playerInputs repeatedNameApp). asciiTrim n \<noteq> []"
  "\<not> distinct (map asciiToLowerCase (map asciiTrim (playerInputs repeatedNameApp)))"
  "length (playerInputs formApp) = 8"
  "\<forall>n \<in> set (playerInputs formApp). asciiTrim n \<noteq> []"
  "distinct (map asciiToLowerCase (map asciiTrim (playerInputs formApp)))"
  by code_simp+

theorem createSession_validates_witness:
  "length (playerInputs formApp) = 8 \<and>
   createSession asciiTrim asciiToLowerCase ''Americano'' blankNameApp =
     blankNameApp\<lparr>message := ''Please enter exactly 8 player names.''\<rparr> \<and>
   createSession asciiTrim asciiToLowerCase ''Americano'' repeatedNameApp =
     repeatedNameApp\<lparr>message := ''Player names must be unique.''\<rparr> \<and>
   map_option (map player_id \<circ> session_players)
       (session (createSession asciiTrim asciiToLowerCase ''Americano'' formApp)) =
     Some [0..<8] \<and>
   map_option (map player_name \<circ> session_players)
       (session (createSession asciiTrim asciiToLowerCase ''Americano'' formApp)) =
     Some [''P1'', ''P2'', ''P3'', ''P4'', ''P5'', ''P6'', ''P7'', ''P8''] \<and>
   map_option session_name
       (session (createSession asciiTrim asciiToLowerCase ''Americano'' formApp)) = Some ''Test'' \<and>
   message (createSession asciiTrim asciiToLowerCase ''Americano'' formApp) = []"
proof -
  from createSession_validates
      [OF form_facts(1), where trim = asciiTrim and toLowerCase = asciiToLowerCase
         and d = "''Americano''"] form_facts(2)
  have blank: "createSession asciiTrim asciiToLowerCase ''Americano'' blankNameApp =
     blankNameApp\<lparr>message := ''Please enter exactly 8 player names.''\<rparr>"
    by blast
  from createSession_validates
      [OF form_facts(3), where trim = asciiTrim and toLowerCase = asciiToLowerCase
         and d = "''Americano''"] form_facts(4,5)
  have repeated: "createSession asciiTrim asciiToLowerCase ''Americano'' repeatedNameApp =
     repeatedNameApp\<lparr>message := ''Player names must be unique.''\<rparr>"
    by blast
  from createSession_validates
      [OF form_facts(6), where trim = asciiTrim and toLowerCase = asciiToLowerCase
         and d = "''Americano''"] form_facts(7,8)
  obtain s where "session (createSession asciiTrim asciiToLowerCase ''Americano'' formApp) = Some s"
    and "map player_id (session_players s) = [0..<8]"
    and "map player_name (session_players s) = map asciiTrim (playerInputs formApp)"
    and "session_name s =
           (if asciiTrim (sessionNameInput formApp) = [] then ''Americano''
            else asciiTrim (sessionNameInput formApp))"
    and "message (createSession asciiTrim asciiToLowerCase ''Americano'' formApp) = []"
    by blast
  with blank repeated form_facts(6) show ?thesis
    by (simp add: formApp_names)
qed

section \<open>Swapping the courts of a round\<close>

lemma toggleCourtSwap_None: "session st = None \<Longrightarrow> toggleCourtSwap r st = st"
  by (simp add: toggleCourtSwap_def)

lemma toggleCourtSwap_Some:
  "session st = Some s \<Longrightarrow>
   session (toggleCourtSwap r st) =
     Some (s\<lparr>session_courtSwapByRound := (session_courtSwapByRound s)(r \<mapsto> \<not> isSwapped s r)\<rparr>)"
  by (simp add: toggleCourtSwap_def persistSession_def)

lemma matchesOf_toggleCourtSwap: "matchesOf (toggleCourtSwap r st) = matchesOf st"
  by (simp add: matchesOf_def toggleCourtSwap_def persistSession_def split: option.splits)

lemma swapEntry_toggleCourtSwap:
  "swapEntry (toggleCourtSwap r st) r' =
     (if session st \<noteq> None \<and> r' = r then Some (\<not> swappedIn st r) else swapEntry st r')"
  by (simp add: swapEntry_def swappedIn_def toggleCourtSwap_def persistSession_def
        split: option.splits)

lemma swappedIn_swapEntry:
  "swappedIn st r = (case swapEntry st r of None \<Rightarrow> False | Some b \<Rightarrow> b)"
  by (simp add: swappedIn_def swapEntry_def isSwapped_def split: option.splits)

lemma toggleCourtSwap_frame:
  "map_option session_name (session (toggleCourtSwap r st)) = map_option session_name (session st)"
  "map_option session_players (session (toggleCourtSwap r st)) = map_option session_players (session st)"
  "totalPoints (toggleCourtSwap r st) = totalPoints st"
  by (simp_all add: toggleCourtSwap_def persistSession_def split: option.splits)

text \<open>
  Claim C8, as the code has it. \<open>toggleCourtSwap\<close> makes no test of its argument: for
  every round number, inside or outside 1 to 7, it records the negation of the current
  flag of that round (an absent flag counting as false), and leaves the flags of the other
  rounds, the matches, the name, the roster and the scoring scale as they were. Without a
  session it does nothing.
\<close>

theorem toggleCourtSwap_flips:
  "(session st = None \<longrightarrow> toggleCourtSwap r st = st) \<and>
   (session st \<noteq> None \<longrightarrow>
      swapEntry (toggleCourtSwap r st) r = Some (\<not> swappedIn st r) \<and>
      swappedIn (toggleCourtSwap r st) r = (\<not> swappedIn st r)) \<and>
   (\<forall>r'. r' \<noteq> r \<longrightarrow> swapEntry (toggleCourtSwap r st) r' = swapEntry st r') \<and>
   matchesOf (toggleCourtSwap r st) = matchesOf st \<and>
   map_option session_name (session (toggleCourtSwap r st)) = map_option session_name (session st) \<and>
   map_option session_players (session (toggleCourtSwap r st)) =
     map_option session_players (session st) \<and>
   totalPoints (toggleCourtSwap r st) = totalPoints st"
  by (simp add: toggleCourtSwap_None matchesOf_toggleCourtSwap swapEntry_toggleCourtSwap
        swappedIn_swapEntry toggleCourtSwap_frame)

theorem toggleCourtSwap_flips_witness:
  "session createdApp \<noteq> None \<and> (8::nat) \<noteq> 3 \<and>
   swapEntry (toggleCourtSwap 3 createdApp) 3 = Some True \<and>
   swapEntry (toggleCourtSwap 3 (toggleCourtSwap 3 createdApp)) 3 = Some False \<and>
   swapEntry (toggleCourtSwap 8 createdApp) 8 = Some True \<and>
   swapEntry (toggleCourtSwap 3 createdApp) 8 = None"
proof -
  have c: "session createdApp \<noteq> None" by (simp add: createdApp_session)
  have e: "swapEntry createdApp r = None" for r
    by (simp add: swapEntry_def createdApp_session)
  have t3: "session (toggleCourtSwap 3 createdApp) \<noteq> None"
    by (simp add: toggleCourtSwap_Some [OF createdApp_session])
  from toggleCourtSwap_flips [of createdApp 3] c e
  have a: "swapEntry (toggleCourtSwap 3 createdApp) 3 = Some True"
    and b: "swapEntry (toggleCourtSwap 3 createdApp) 8 = None"
    by (simp_all add: swappedIn_swapEntry)
  from toggleCourtSwap_flips [of "toggleCourtSwap 3 createdApp" 3] t3 a
  have a2: "swapEntry (toggleCourtSwap 3 (toggleCourtSwap 3 createdApp)) 3 = Some False"
    by (simp add: swappedIn_swapEntry)
  from toggleCourtSwap_flips [of createdApp 8] c e
  have d: "swapEntry (toggleCourtSwap 8 createdApp) 8 = Some True"
    by (simp add: swappedIn_swapEntry)
  from a a2 b c d show ?thesis by simp
qed

text \<open>
  The claim as it was stated makes the command a no-op outside 1 to 7. For round 8 the
  session changes: it gets an entry for round 8.
\<close>

theorem toggleCourtSwap_out_of_range_counterexample:
  "(8::nat) \<notin> {1..7} \<and> session (toggleCourtSwap 8 createdApp) \<noteq> session createdApp"
proof -
  have "swapEntry createdApp 8 = None"
    by (simp add: swapEntry_def createdApp_session)
  moreover have "swapEntry (toggleCourtSwap 8 createdApp) 8 = Some (\<not> swappedIn createdApp 8)"
    by (simp add: swapEntry_toggleCourtSwap createdApp_session)
  ultimately have "swapEntry (toggleCourtSwap 8 createdApp) 8 \<noteq> swapEntry createdApp 8"
    by simp
  then have "session (toggleCourtSwap 8 createdApp) \<noteq> session createdApp"
    by (auto simp: swapEntry_def)
  then show ?thesis by simp
qed

section \<open>The display order\<close>

lemma groupedMatches_depends:
  assumes "matchesOf st' = matchesOf st"
    and "\<And>r. swappedIn st' r = swappedIn st r"
    and "session st' = None \<longleftrightarrow> session st = None"
  shows "groupedMatches st' = groupedMatches st"
proof (cases "session st")
  case None
  with assms(3) show ?thesis by (simp add: groupedMatches_def)
next
  case (Some s)
  with assms(3) obtain s' where s': "session st' = Some s'" by auto
  from assms(1) Some s' have m: "session_matches s' = session_matches s"
    by (simp add: matchesOf_def)
  from assms(2) Some s' have w: "isSwapped s' r = isSwapped s r" for r
    by (simp add: swappedIn_def)
  show ?thesis
    by (simp add: groupedMatches_def Some s' m w)
qed

lemma session_toggle_None: "session (toggleCourtSwap r st) = None \<longleftrightarrow> session st = None"
  by (simp add: toggleCourtSwap_def persistSession_def split: option.splits)

lemma swappedIn_toggle_twice:
  "swappedIn (toggleCourtSwap r (toggleCourtSwap r st)) r' = swappedIn st r'"
proof (cases "session st = None")
  case True
  then show ?thesis by (simp add: toggleCourtSwap_None)
next
  case False
  then have t: "session (toggleCourtSwap r st) \<noteq> None"
    by (simp add: session_toggle_None)
  show ?thesis
  proof (cases "r' = r")
    case True
    have "swapEntry (toggleCourtSwap r (toggleCourtSwap r st)) r = Some (\<not> swappedIn (toggleCourtSwap r st) r)"
      using t by (simp add: swapEntry_toggleCourtSwap)
    moreover have "swapEntry (toggleCourtSwap r st) r = Some (\<not> swappedIn st r)"
      using False by (simp add: swapEntry_toggleCourtSwap)
    then have "swappedIn (toggleCourtSwap r st) r = (\<not> swappedIn st r)"
      by (simp add: swappedIn_swapEntry [of "toggleCourtSwap r st"])
    ultimately have "swapEntry (toggleCourtSwap r (toggleCourtSwap r st)) r = Some (swappedIn st r)"
      by simp
    with True show ?thesis
      by (simp add: swappedIn_swapEntry [of "toggleCourtSwap r (toggleCourtSwap r st)"])
  next
    case False
    then have "swapEntry (toggleCourtSwap r (toggleCourtSwap r st)) r' = swapEntry st r'"
      by (simp add: swapEntry_toggleCourtSwap)
    then show ?thesis
      by (simp add: swappedIn_swapEntry)
  qed
qed

text \<open>
  Claim C9. For every state and every round number, so for the rounds 1 to 7, two
  applications of \<open>toggleCourtSwap\<close> to the same round give back the display order of
  every round, and neither application changes the list of matches: no id, round, court,
  team or score.
\<close>

theorem toggleCourtSwap_twice:
  "groupedMatches (toggleCourtSwap r (toggleCourtSwap r st)) = groupedMatches st \<and>
   matchesOf (toggleCourtSwap r st) = matchesOf st \<and>
   matchesOf (toggleCourtSwap r (toggleCourtSwap r st)) = matchesOf st"
proof -
  have "groupedMatches (toggleCourtSwap r (toggleCourtSwap r st)) = groupedMatches st"
    by (rule groupedMatches_depends)
      (simp_all add: matchesOf_toggleCourtSwap swappedIn_toggle_twice session_toggle_None)
  then show ?thesis by (simp add: matchesOf_toggleCourtSwap)
qed

text \<open>One application does reverse the round: round 3 of a new session.\<close>

lemma toggle_once_example:
  "map (map (map_option match_court)) (groupedMatches createdApp) = replicate 7 [Some 1, Some 2]"
  "map (map (map_option match_court)) (groupedMatches (toggleCourtSwap 3 createdApp)) =
     (replicate 7 [Some 1, Some 2])[2 := [Some 2, Some 1]]"
  by code_simp+

section \<open>Played matches stay played\<close>

lemma playedAt_updateScore: "playedAt st i \<Longrightarrow> playedAt (updateScore mid v st) i"
  by (simp add: playedAt_def matchesOf_updateScore isPlayed_def)

lemma playedAt_scoreInputChange: "playedAt st i \<Longrightarrow> playedAt (scoreInputChange mid w st) i"
  by (cases w) (simp_all add: scoreInputChange_def playedAt_updateScore)

lemma playedAt_updateTotalPoints: "playedAt st i \<Longrightarrow> playedAt (updateTotalPoints n st) i"
  by (auto simp: playedAt_def matchesOf_updateTotalPoints isPlayed_def split: option.splits)

lemma playedAt_toggleCourtSwap: "playedAt st i \<Longrightarrow> playedAt (toggleCourtSwap r st) i"
  by (simp add: playedAt_def matchesOf_toggleCourtSwap)

lemma createSession_rejected:
  assumes "createSessionRejects trim toLowerCase st"
  shows "session (createSession trim toLowerCase d st) = session st"
proof (cases "\<exists>n \<in> set (playerInputs st). trim n = []")
  case True
  then show ?thesis by (simp add: createSession_blank)
next
  case False
  with assms have "card (set (map toLowerCase (map trim (playerInputs st)))) \<noteq> 8"
    by (simp add: createSessionRejects_def)
  moreover from False have "\<forall>n \<in> set (playerInputs st). trim n \<noteq> []" by simp
  ultimately show ?thesis by (simp add: createSession_repeated)
qed

lemma playedAt_session: "playedAt st i \<Longrightarrow> session st \<noteq> None"
  by (cases "session st") (simp_all add: playedAt_def matchesOf_def)

lemma playedAt_perform: "playedAt st i \<Longrightarrow> playedAt (perform trim toLowerCase d c st) i"
  by (cases c)
    (simp_all add: playedAt_session playedAt_scoreInputChange playedAt_toggleCourtSwap
       playedAt_updateTotalPoints)

lemma playedAt_fold_perform: "playedAt st i \<Longrightarrow> playedAt (fold (perform trim toLowerCase d) cmds st) i"
  by (induction cmds arbitrary: st) (simp_all add: playedAt_perform)

text \<open>
  Claim C10. A match that has a score keeps having one under every command but Reset:
  entering a score (a number or not), changing the scoring scale and swapping courts
  leave it played, swapping courts and a rejected \<open>createSession\<close> leave the matches as
  they are, and so the match is still played after any sequence of the commands that the
  page offers besides Reset.
\<close>

theorem played_stays_played:
  assumes "playedAt st i"
  shows "playedAt (updateScore mid v st) i \<and>
         playedAt (scoreInputChange mid w st) i \<and>
         playedAt (updateTotalPoints n st) i \<and>
         playedAt (toggleCourtSwap r st) i \<and>
         matchesOf (toggleCourtSwap r st) = matchesOf st \<and>
         (createSessionRejects trim toLowerCase st \<longrightarrow>
            matchesOf (createSession trim toLowerCase d st) = matchesOf st \<and>
            playedAt (createSession trim toLowerCase d st) i) \<and>
         playedAt (fold (perform trim toLowerCase d) cmds st) i"
proof -
  have "matchesOf (createSession trim toLowerCase d st) = matchesOf st \<and>
        playedAt (createSession trim toLowerCase d st) i"
    if "createSessionRejects trim toLowerCase st"
    using createSession_rejected [OF that, where d = d] assms
    by (simp add: playedAt_def matchesOf_def)
  with assms show ?thesis
    by (simp add: playedAt_updateScore playedAt_scoreInputChange playedAt_updateTotalPoints
          playedAt_toggleCourtSwap matchesOf_toggleCourtSwap playedAt_fold_perform)
qed

lemma thirtyApp_played: "playedAt thirtyApp 0"
  by code_simp

theorem played_stays_played_witness:
  "playedAt thirtyApp 0 \<and>
   playedAt (updateTotalPoints TP24 thirtyApp) 0 \<and>
   playedAt (updateScore ''r1c1'' 0 thirtyApp) 0 \<and>
   playedAt
     (fold (perform asciiTrim asciiToLowerCase ''Americano'')
        [SetScoringScale TP24, UpdateScore ''r1c1'' (Some 0), ToggleCourtSwap 1, CreateSession,
         UpdateScore ''r1c1'' None]
        thirtyApp) 0"
  using played_stays_played [OF thirtyApp_played] thirtyApp_played by blast

section \<open>The sessions that the commands produce\<close>

text \<open>
  The properties assumed of a session for the sum of the points and for the change of
  the scoring scale hold of a new session and are kept by every command, so they hold in
  every state that the page reaches from a state without a session.
\<close>

lemma generateMatches_ids:
  "\<forall>m \<in> set generateMatches.
     fst (team_players (match_teamA m)) < 8 \<and> snd (team_players (match_teamA m)) < 8 \<and>
     fst (team_players (match_teamB m)) < 8 \<and> snd (team_players (match_teamB m)) < 8 \<and>
     scoreNonNegative m \<and> match_scoreA m = None"
  by code_simp

lemma generateMatches_within: "\<forall>m \<in> set generateMatches. scoreWithin scale m"
  using generateMatches_ids by (auto simp: scoreWithin_def)

lemma totalPoints_createSession:
  "totalPoints (createSession trim toLowerCase d st) = totalPoints st"
  by (simp add: createSession_def Let_def persistSession_def)

lemma wellFormed_createSession:
  assumes "length (playerInputs st) = 8" and "wellFormed st"
  shows "wellFormed (createSession trim toLowerCase d st)"
proof (cases "createSessionRejects trim toLowerCase st")
  case True
  from createSession_rejected [OF True, where d = d] assms(2) show ?thesis
    by (simp add: wellFormed_def totalPoints_createSession split: option.splits)
next
  case False
  then have a: "\<forall>n \<in> set (playerInputs st). trim n \<noteq> []"
    and b: "card (set (map toLowerCase (map trim (playerInputs st)))) = 8"
    by (simp_all add: createSessionRejects_def)
  let ?ps = "map (\<lambda>(id, name). \<lparr>player_id = id, player_name = name\<rparr>)
               (enumerate 0 (map trim (playerInputs st)))"
  have ids: "map player_id ?ps = [0..<8]"
    using enumerated_players(1) [of "map trim (playerInputs st)"] assms(1) by simp
  then have "set (map player_id ?ps) = set [0..<8]" by (rule arg_cong)
  then have img: "player_id ` set ?ps = {0..<8}" by (simp only: set_map set_upt)
  have dist: "distinct (map player_id ?ps)" by (simp only: ids distinct_upt)
  have len: "length ?ps = 8" using assms(1) by simp
  have "length generateMatches = 14" by code_simp
  with generateMatches_ids generateMatches_within img dist len show ?thesis
    unfolding createSession_accepts [OF a b] wellFormed_def
    by (simp add: persistSession_def rosterConsistent_def knownTeam_def)
qed

lemma scoreNonNegative_clamped:
  "scoreNonNegative (m\<lparr>match_scoreA := Some (max 0 x)\<rparr>)"
  by (simp add: scoreNonNegative_def)

lemma scoreWithin_clamped:
  "scoreWithin (pointsValue n) (m\<lparr>match_scoreA := Some (max 0 (min (pointsValue n) x))\<rparr>)"
  using pointsValue_nonneg [of n] by (simp add: scoreWithin_def)

lemma wellFormed_updateScore: "wellFormed st \<Longrightarrow> wellFormed (updateScore mid v st)"
  by (cases "session st")
    (auto simp: wellFormed_def updateScore_def persistSession_def Let_def rosterConsistent_def
       knownTeam_def scoreNonNegative_clamped scoreWithin_clamped)

lemma reclamped_within:
  "scoreWithin (pointsValue n)
     (case match_scoreA m of
        None \<Rightarrow> m
      | Some a \<Rightarrow> m\<lparr>match_scoreA := Some (max 0 (min (pointsValue n) a))\<rparr>)"
  by (cases "match_scoreA m") (simp_all add: scoreWithin_clamped, simp add: scoreWithin_def)

lemma wellFormed_updateTotalPoints: "wellFormed st \<Longrightarrow> wellFormed (updateTotalPoints n st)"
  by (cases "session st")
    (auto simp: wellFormed_def updateTotalPoints_def persistSession_def Let_def rosterConsistent_def
       knownTeam_def scoreNonNegative_def reclamped_within split: option.splits)

lemma wellFormed_toggleCourtSwap: "wellFormed st \<Longrightarrow> wellFormed (toggleCourtSwap r st)"
  by (cases "session st")
    (auto simp: wellFormed_def toggleCourtSwap_def persistSession_def rosterConsistent_def
       knownTeam_def)

lemma playerInputs_perform: "playerInputs (perform trim toLowerCase d c st) = playerInputs st"
  by (cases c)
    (auto simp: createSession_def Let_def persistSession_def scoreInputChange_def updateScore_def
       toggleCourtSwap_def updateTotalPoints_def split: option.splits)

lemma wellFormed_perform:
  assumes "length (playerInputs st) = 8" and "wellFormed st"
  shows "wellFormed (perform trim toLowerCase d c st)"
  using assms
  by (cases c)
    (auto simp: wellFormed_createSession wellFormed_updateScore wellFormed_updateTotalPoints
       wellFormed_toggleCourtSwap scoreInputChange_def split: option.splits)

lemma wellFormed_run:
  assumes "length (playerInputs st) = 8" and "wellFormed st"
  shows "wellFormed (fold (perform trim toLowerCase d) cmds st)"
  using assms
proof (induction cmds arbitrary: st)
  case Nil
  then show ?case by simp
next
  case (Cons c cmds)
  have "length (playerInputs (perform trim toLowerCase d c st)) = 8"
    using Cons.prems(1) by (simp add: playerInputs_perform)
  moreover have "wellFormed (perform trim toLowerCase d c st)"
    using Cons.prems by (rule wellFormed_perform)
  ultimately show ?case using Cons.IH by simp
qed

end
